theory Spec2Isabelle
  imports Complex_Main
begin

section \<open>JavaScript strings as used by App.js\<close>

text \<open>
  A string is a list of characters. The white space of \<^verbatim>\<open>String.prototype.trim\<close> and of
  the regular expression class \<^verbatim>\<open>\s\<close> is, among the characters below 256: TAB, LF, VT, FF,
  CR, SPACE and NBSP.
\<close>

definition is_space :: "char \<Rightarrow> bool" where
  "is_space c =
     (c = CHR 0x09 \<or> c = CHR 0x0A \<or> c = CHR 0x0B \<or> c = CHR 0x0C \<or> c = CHR 0x0D \<or>
      c = CHR 0x20 \<or> c = CHR 0xA0)"

text \<open>\<^verbatim>\<open>s.trim()\<close>: white space removed at both ends.\<close>

definition trim :: "string \<Rightarrow> string" where
  "trim s = rev (dropWhile is_space (rev (dropWhile is_space s)))"

text \<open>\<^verbatim>\<open>s.replace(/\s+/g, " ")\<close>: every maximal run of white space becomes one space.\<close>

function replace_ws :: "string \<Rightarrow> string" where
  "replace_ws [] = []"
| "replace_ws (c # cs) =
     (if is_space c then CHR 0x20 # replace_ws (dropWhile is_space cs)
      else c # replace_ws cs)"
  by pat_completeness auto
termination
  by (relation "measure length") (auto simp: less_Suc_eq_le length_dropWhile_le)

text \<open>\<^verbatim>\<open>s.split(/[.;]/)\<close>: the pieces between separators; the empty string gives one
  empty piece.\<close>

definition is_sep :: "char \<Rightarrow> bool" where
  "is_sep c = (c = CHR ''.'' \<or> c = CHR '';'')"

fun split_sep :: "string \<Rightarrow> string list" where
  "split_sep [] = [[]]"
| "split_sep (c # cs) =
     (if is_sep c then [] # split_sep cs
      else (case split_sep cs of
              [] \<Rightarrow> [[c]]
            | p # ps \<Rightarrow> (c # p) # ps))"

text \<open>\<^verbatim>\<open>v || d\<close> where \<open>v\<close> is a string, \<^verbatim>\<open>null\<close> or \<^verbatim>\<open>undefined\<close>: the empty string is
  falsy as well.\<close>

definition truthy :: "string option \<Rightarrow> bool" where
  "truthy v = (case v of None \<Rightarrow> False | Some s \<Rightarrow> s \<noteq> [])"

definition or_else :: "string option \<Rightarrow> string \<Rightarrow> string" where
  "or_else v d = (case v of None \<Rightarrow> d | Some s \<Rightarrow> if s = [] then d else s)"

definition str_or :: "string \<Rightarrow> string \<Rightarrow> string" where
  "str_or s d = (if s = [] then d else s)"

section \<open>Wardrobe items and their display label\<close>

record item =
  image_url :: string
  name :: "string option"
  category :: "string option"
  color :: "string option"
  material :: "string option"
  texture :: "string option"
  formality :: "string option"
  reason :: "string option"


section \<open>Stylist notes\<close>

text \<open>\<^verbatim>\<open>reasonPoints\<close> of \<^verbatim>\<open>RecommendationResultScreen\<close>.\<close>

definition reasonPoints :: "string \<Rightarrow> string list" where
  "reasonPoints overallReason =
     (if overallReason = [] then []
      else
        let trimmed = trim (replace_ws overallReason);
            parts = map trim (split_sep trimmed)
        in take 6 (filter (\<lambda>p. length p > 0) parts))"

section \<open>Errors, replies and requests\<close>

text \<open>A thrown JavaScript error with its \<^verbatim>\<open>name\<close> and \<^verbatim>\<open>message\<close>; \<^verbatim>\<open>String(err)\<close> is
  \<^verbatim>\<open>Error.prototype.toString\<close>.\<close>

datatype js_error = JsError (err_name: string) (err_message: string)

definition error_string :: "js_error \<Rightarrow> string" where
  "error_string e =
     (if err_name e = [] then err_message e
      else if err_message e = [] then err_name e
      else err_name e @ '': '' @ err_message e)"

definition new_Error :: "string \<Rightarrow> js_error" where
  "new_Error msg = JsError ''Error'' msg"

text \<open>The outcome of an awaited promise: it rejects with an error or resolves to a value.\<close>

datatype 'a attempt = Throws js_error | Returns 'a

text \<open>What \<^verbatim>\<open>fetch\<close> resolves to: the status, the outcome of \<^verbatim>\<open>res.json()\<close> (a body that
  is not JSON, or JSON \<^verbatim>\<open>null\<close> whose fields are then read, throws) and \<^verbatim>\<open>res.text()\<close>.\<close>

record 'a reply =
  status :: nat
  json :: "'a attempt"
  body_text :: string

definition ok :: "'a reply \<Rightarrow> bool" where
  "ok res = (200 \<le> status res \<and> status res \<le> 299)"

record auth_data =
  access_token :: "string option"

datatype items_data = ItemArray "item list" | ItemObject "item list option"

record outfit_data =
  error :: "string option"
  selected_items :: "item list option"
  overall_reason :: "string option"
  weather_summary :: "string option"
  weather_warning :: "string option"

record coords =
  lat :: real
  lon :: real

text \<open>A value of a request's body: a text, a number (in a JSON body), the text
  \<^verbatim>\<open>String(x)\<close> of a number \<open>x\<close> (in a form), or a file given by its uri, type and name.\<close>

datatype field = Text string | Number real | NumberText real | FilePart string string string

datatype body =
    NoBody
  | UrlEncoded "(string \<times> string) list"
  | FormData "(string \<times> field) list"
  | JsonBody "(string \<times> field) list"

record request =
  http_method :: string
  url :: string
  headers :: "(string \<times> string) list"
  body :: body

definition BACKEND_URL :: string where
  "BACKEND_URL = ''http://10.228.248.210:8000''"

text \<open>The scheme of a URL: what stands before the first colon.\<close>

definition scheme :: "string \<Rightarrow> string" where
  "scheme u = takeWhile (\<lambda>c. c \<noteq> CHR '':'') u"

text \<open>\<^verbatim>\<open>`Bearer ${token}`\<close>: a \<^verbatim>\<open>null\<close> token is interpolated as the text \<^verbatim>\<open>null\<close>.\<close>

definition bearer :: "string option \<Rightarrow> string" where
  "bearer t = ''Bearer '' @ (case t of None \<Rightarrow> ''null'' | Some v \<Rightarrow> v)"

section \<open>Application state\<close>

datatype params =
    SelectionMode bool
  | SelectedWardrobeItem "item option"
  | ItemParam item
  | Outfit "item list" string string string

datatype nav =
    Navigate string "params option"
  | GoBack
  | PopToTop
  | SetParams params

text \<open>The token held by \<^verbatim>\<open>App\<close>, the device's key-value storage, and the traces of what
  the handlers did: alerts shown (title and message), requests sent, navigation calls.\<close>

record app =
  token :: "string option"
  storage :: "string \<rightharpoonup> string"
  alerts :: "(string \<times> string option) list"
  requests :: "request list"
  navigation :: "nav list"

definition alert :: "string \<Rightarrow> string option \<Rightarrow> app \<Rightarrow> app" where
  "alert title msg s = s\<lparr>alerts := alerts s @ [(title, msg)]\<rparr>"

definition fetch :: "request \<Rightarrow> app \<Rightarrow> app" where
  "fetch r s = s\<lparr>requests := requests s @ [r]\<rparr>"

definition navigate :: "nav \<Rightarrow> app \<Rightarrow> app" where
  "navigate n s = s\<lparr>navigation := navigation s @ [n]\<rparr>"

text \<open>The navigator shows the authenticated stack when \<^verbatim>\<open>token\<close> is truthy and the login
  screen otherwise.\<close>

datatype nav_state = Unauthenticated | Authenticated

definition nav_state_of :: "app \<Rightarrow> nav_state" where
  "nav_state_of s = (if truthy (token s) then Authenticated else Unauthenticated)"

section \<open>Session: signIn, signUp, signOut\<close>

text \<open>The storage calls \<^verbatim>\<open>setItem\<close> and \<^verbatim>\<open>removeItem\<close> are taken to succeed.\<close>

definition auth_request :: "string \<Rightarrow> string \<Rightarrow> string \<Rightarrow> request" where
  "auth_request path username password =
     \<lparr>http_method = ''POST'', url = BACKEND_URL @ path,
      headers = [(''Content-Type'', ''application/x-www-form-urlencoded'')],
      body = UrlEncoded [(''username'', username), (''password'', password)]\<rparr>"

definition signIn :: "app \<Rightarrow> string \<Rightarrow> string \<Rightarrow> auth_data reply attempt \<Rightarrow> app" where
  "signIn s username password r =
     (let s1 = fetch (auth_request ''/token'' username password) s in
      case r of
        Throws e \<Rightarrow> alert ''Login failed'' (Some (err_message e)) s1
      | Returns res \<Rightarrow>
          (case json res of
             Throws e \<Rightarrow> alert ''Login failed'' (Some (err_message e)) s1
           | Returns data \<Rightarrow>
               (case access_token data of
                  None \<Rightarrow>
                    alert ''Login failed'' (Some (err_message (new_Error ''Login failed''))) s1
                | Some t \<Rightarrow>
                    if t = []
                    then alert ''Login failed'' (Some (err_message (new_Error ''Login failed''))) s1
                    else s1\<lparr>storage := (storage s1)(''token'' \<mapsto> t), token := Some t\<rparr>)))"

definition signUp :: "app \<Rightarrow> string \<Rightarrow> string \<Rightarrow> auth_data reply attempt \<Rightarrow> app" where
  "signUp s username password r =
     (let s1 = fetch (auth_request ''/signup'' username password) s in
      case r of
        Throws e \<Rightarrow> alert ''Signup failed'' (Some (err_message e)) s1
      | Returns res \<Rightarrow>
          (case json res of
             Throws e \<Rightarrow> alert ''Signup failed'' (Some (err_message e)) s1
           | Returns data \<Rightarrow>
               (case access_token data of
                  None \<Rightarrow>
                    alert ''Signup failed'' (Some (err_message (new_Error ''Signup failed''))) s1
                | Some t \<Rightarrow>
                    if t = []
                    then alert ''Signup failed'' (Some (err_message (new_Error ''Signup failed''))) s1
                    else s1\<lparr>storage := (storage s1)(''token'' \<mapsto> t), token := Some t\<rparr>)))"

definition signOut :: "app \<Rightarrow> app" where
  "signOut s = s\<lparr>token := None, storage := (storage s)(''token'' := None)\<rparr>"

section \<open>LoginScreen\<close>

record login_screen =
  username :: string
  password :: string
  login_loading :: bool

text \<open>\<^verbatim>\<open>validate\<close> returns whether the form may be sent and shows the prompt when not.\<close>

definition validate :: "app \<Rightarrow> login_screen \<Rightarrow> bool \<times> app" where
  "validate s l =
     (if trim (username l) = [] \<or> trim (password l) = []
      then (False, alert ''Enter username and password'' None s)
      else (True, s))"

text \<open>The \<^verbatim>\<open>onPress\<close> handlers of the Login and Sign Up buttons.\<close>

definition loginPress ::
  "app \<Rightarrow> login_screen \<Rightarrow> auth_data reply attempt \<Rightarrow> app \<times> login_screen" where
  "loginPress s l r =
     (case validate s l of
        (False, s1) \<Rightarrow> (s1, l)
      | (True, s1) \<Rightarrow>
          (signIn s1 (trim (username l)) (trim (password l)) r, l\<lparr>login_loading := False\<rparr>))"

definition signUpPress ::
  "app \<Rightarrow> login_screen \<Rightarrow> auth_data reply attempt \<Rightarrow> app \<times> login_screen" where
  "signUpPress s l r =
     (case validate s l of
        (False, s1) \<Rightarrow> (s1, l)
      | (True, s1) \<Rightarrow>
          (signUp s1 (trim (username l)) (trim (password l)) r, l\<lparr>login_loading := False\<rparr>))"

section \<open>WardrobeScreen\<close>

record wardrobe_screen =
  items :: "item list"
  wardrobe_loading :: bool

text \<open>\<^verbatim>\<open>route.params?.selectionMode || false\<close>.\<close>

definition isSelectionMode :: "params option \<Rightarrow> bool" where
  "isSelectionMode p = (case p of Some (SelectionMode b) \<Rightarrow> b | _ \<Rightarrow> False)"

text \<open>\<^verbatim>\<open>fetchItems\<close>: \<open>focused\<close> is what \<^verbatim>\<open>navigation.isFocused()\<close> answers once the reply
  is in. The \<^verbatim>\<open>finally\<close> block runs on every path.\<close>

definition fetchItems ::
  "app \<Rightarrow> wardrobe_screen \<Rightarrow> items_data reply attempt \<Rightarrow> bool \<Rightarrow> app \<times> wardrobe_screen" where
  "fetchItems s w r focused =
     (let w1 = w\<lparr>wardrobe_loading := True\<rparr>;
          s1 = fetch \<lparr>http_method = ''GET'', url = BACKEND_URL @ ''/items'',
                      headers = [(''Authorization'', bearer (token s))], body = NoBody\<rparr> s;
          finally = (\<lambda>w'. if focused then w'\<lparr>wardrobe_loading := False\<rparr> else w')
      in case r of
           Throws e \<Rightarrow> (alert ''Error fetching items'' None s1, finally w1)
         | Returns res \<Rightarrow>
             if status res = 401
             then (signOut (alert ''Session expired'' None s1), finally w1)
             else (case json res of
                     Throws e \<Rightarrow> (alert ''Error fetching items'' None s1, finally w1)
                   | Returns data \<Rightarrow>
                       (s1, finally
                          (if focused
                           then w1\<lparr>items :=
                                     (case data of
                                        ItemArray xs \<Rightarrow> xs
                                      | ItemObject None \<Rightarrow> []
                                      | ItemObject (Some xs) \<Rightarrow> xs)\<rparr>
                           else w1))))"

definition handleItemPress :: "params option \<Rightarrow> app \<Rightarrow> item \<Rightarrow> app" where
  "handleItemPress route s it =
     (if isSelectionMode route
      then navigate (Navigate ''Recommendations'' (Some (SelectedWardrobeItem (Some it)))) s
      else navigate (Navigate ''ItemDetail'' (Some (ItemParam it))) s)"

text \<open>What the screen offers to press: the header's buttons, the grid (hidden while
  loading) and the add button (absent in selection mode).\<close>

datatype control = BackButton | SignOutButton | GridItem item | AddItemButton

definition wardrobe_controls :: "params option \<Rightarrow> wardrobe_screen \<Rightarrow> control list" where
  "wardrobe_controls route w =
     [BackButton]
     @ (if \<not> isSelectionMode route then [SignOutButton] else [])
     @ (if wardrobe_loading w then [] else map GridItem (items w))
     @ (if \<not> isSelectionMode route then [AddItemButton] else [])"

fun wardrobe_press :: "params option \<Rightarrow> app \<Rightarrow> control \<Rightarrow> app" where
  "wardrobe_press route s BackButton = navigate GoBack s"
| "wardrobe_press route s SignOutButton = signOut s"
| "wardrobe_press route s (GridItem it) = handleItemPress route s it"
| "wardrobe_press route s AddItemButton = navigate (Navigate ''Add Item'' None) s"

section \<open>ItemDetailScreen\<close>

text \<open>\<^verbatim>\<open>handleDelete\<close> asks for confirmation; the request is sent by the Delete button of
  that dialogue.\<close>

datatype choice = Cancel | Delete

definition handleDelete ::
  "app \<Rightarrow> bool \<Rightarrow> item \<Rightarrow> choice \<Rightarrow> unit reply attempt \<Rightarrow> app \<times> bool" where
  "handleDelete s deleting it c r =
     (let s1 = alert ''Delete item'' (Some ''Are you sure you want to delete this item?'') s in
      case c of
        Cancel \<Rightarrow> (s1, deleting)
      | Delete \<Rightarrow>
          (let s2 = fetch \<lparr>http_method = ''DELETE'', url = BACKEND_URL @ ''/delete-item'',
                           headers = [(''Authorization'', bearer (token s))],
                           body = FormData [(''image_url'', Text (image_url it))]\<rparr> s1
           in case r of
                Throws e \<Rightarrow> (alert ''Delete failed'' (Some (error_string e)) s2, False)
              | Returns res \<Rightarrow>
                  if \<not> ok res
                  then (alert ''Delete failed''
                          (Some (error_string (new_Error ''Delete failed''))) s2, False)
                  else (navigate GoBack s2, False)))"

section \<open>AddItemScreen\<close>

record add_item_screen =
  name_input :: string
  uploading :: bool
  imageUri :: string

datatype camera = Canceled | Captured string

definition handlePhotoUpload ::
  "app \<Rightarrow> add_item_screen \<Rightarrow> string \<Rightarrow> camera \<Rightarrow> unit reply attempt
     \<Rightarrow> app \<times> add_item_screen" where
  "handlePhotoUpload s a permission cam r =
     (if permission \<noteq> ''granted'' then (alert ''Camera permission required'' None s, a)
      else case cam of
        Canceled \<Rightarrow> (s, a)
      | Captured uri \<Rightarrow>
          (let a1 = a\<lparr>imageUri := uri, uploading := False\<rparr>;
               s1 = fetch \<lparr>http_method = ''POST'', url = BACKEND_URL @ ''/add-item'',
                           headers = [(''Authorization'', bearer (token s))],
                           body = FormData
                             [(''file'', FilePart uri ''image/jpeg'' ''photo.jpg''),
                              (''name'', Text (str_or (trim (name_input a)) ''Unnamed''))]\<rparr> s
           in case r of
                Throws e \<Rightarrow> (alert ''Error'' (Some (error_string e)) s1, a1)
              | Returns res \<Rightarrow>
                  if \<not> ok res
                  then (alert ''Error''
                          (Some (error_string
                             (new_Error (str_or (body_text res) ''Upload failed'')))) s1, a1)
                  else (navigate GoBack
                          (alert ''Saved!'' (Some ''Item added successfully.'') s1), a1)))"

section \<open>RecommendationsScreen\<close>

record recommendations_screen =
  prompt :: string
  loading :: bool
  coords :: "coords option"
  cameraModalVisible :: bool

text \<open>The fields \<^verbatim>\<open>lat\<close> and \<^verbatim>\<open>lon\<close> that a JSON body gets when the position is
  known.\<close>

definition coord_fields :: "coords option \<Rightarrow> (string \<times> field) list" where
  "coord_fields c =
     (case c of None \<Rightarrow> [] | Some p \<Rightarrow> [(''lat'', Number (lat p)), (''lon'', Number (lon p))])"

text \<open>The form of \<^verbatim>\<open>handleLaunchCamera\<close> appends them as \<^verbatim>\<open>String(coords.lat)\<close> and
  \<^verbatim>\<open>String(coords.lon)\<close>.\<close>

definition coord_text_fields :: "coords option \<Rightarrow> (string \<times> field) list" where
  "coord_text_fields c =
     (case c of
        None \<Rightarrow> []
      | Some p \<Rightarrow> [(''lat'', NumberText (lat p)), (''lon'', NumberText (lon p))])"

text \<open>The navigation to the result screen that the three recommendation handlers share:
  every field of the reply falls back with \<^verbatim>\<open>||\<close>.\<close>

definition show_result :: "outfit_data \<Rightarrow> nav" where
  "show_result data =
     Navigate ''RecommendationResult''
       (Some (Outfit (case selected_items data of None \<Rightarrow> [] | Some xs \<Rightarrow> xs)
                (or_else (overall_reason data) [])
                (or_else (weather_summary data) [])
                (or_else (weather_warning data) [])))"

text \<open>What follows the \<^verbatim>\<open>fetch\<close> in the three handlers: \<open>mounted\<close> is
  \<^verbatim>\<open>isMounted.current\<close> once the reply is in, \<open>title\<close> the title of the failure notice.\<close>

definition after_fetch ::
  "string \<Rightarrow> app \<Rightarrow> recommendations_screen \<Rightarrow> outfit_data reply attempt \<Rightarrow> bool
     \<Rightarrow> app \<times> recommendations_screen" where
  "after_fetch title s rs r mounted =
     (let finally = (\<lambda>rs'. if mounted then rs'\<lparr>loading := False\<rparr> else rs');
          catch = (\<lambda>e. if mounted then alert title (Some (error_string e)) s else s)
      in case r of
           Throws e \<Rightarrow> (catch e, finally rs)
         | Returns res \<Rightarrow>
             if \<not> mounted then (s, finally rs)
             else (case json res of
                     Throws e \<Rightarrow> (catch e, finally rs)
                   | Returns data \<Rightarrow>
                       if \<not> ok res
                       then (catch (new_Error (or_else (error data) ''Request failed'')),
                             finally rs)
                       else (navigate (show_result data) s, finally (rs\<lparr>prompt := []\<rparr>))))"

definition generateFromPrompt ::
  "app \<Rightarrow> recommendations_screen \<Rightarrow> outfit_data reply attempt \<Rightarrow> bool
     \<Rightarrow> app \<times> recommendations_screen" where
  "generateFromPrompt s rs r mounted =
     (let rs1 = rs\<lparr>loading := True\<rparr>;
          s1 = fetch \<lparr>http_method = ''POST'', url = BACKEND_URL @ ''/outfit/from-prompt'',
                      headers = [(''Authorization'', bearer (token s)),
                                 (''Content-Type'', ''application/json'')],
                      body = JsonBody ([(''prompt'', Text (prompt rs))]
                                       @ coord_fields (coords rs))\<rparr> s
      in after_fetch ''Failed'' s1 rs1 r mounted)"

definition handleWardrobeSelection ::
  "app \<Rightarrow> recommendations_screen \<Rightarrow> item \<Rightarrow> outfit_data reply attempt \<Rightarrow> bool
     \<Rightarrow> app \<times> recommendations_screen" where
  "handleWardrobeSelection s rs it r mounted =
     (let rs1 = rs\<lparr>cameraModalVisible := False, loading := True\<rparr>;
          s1 = fetch \<lparr>http_method = ''POST'', url = BACKEND_URL @ ''/outfit/from-prompt'',
                      headers = [(''Authorization'', bearer (token s)),
                                 (''Content-Type'', ''application/json'')],
                      body = JsonBody ([(''prompt'', Text (prompt rs)),
                                        (''base_image_url'', Text (image_url it))]
                                       @ coord_fields (coords rs))\<rparr> s
      in after_fetch ''Error'' s1 rs1 r mounted)"

text \<open>The effect on \<^verbatim>\<open>route.params?.selectedWardrobeItem\<close>: a selected item is taken out of
  the parameters and handed to \<^verbatim>\<open>handleWardrobeSelection\<close>.\<close>

definition selection_effect ::
  "app \<Rightarrow> recommendations_screen \<Rightarrow> params option \<Rightarrow> outfit_data reply attempt \<Rightarrow> bool
     \<Rightarrow> app \<times> recommendations_screen" where
  "selection_effect s rs route r mounted =
     (case route of
        Some (SelectedWardrobeItem (Some it)) \<Rightarrow>
          handleWardrobeSelection (navigate (SetParams (SelectedWardrobeItem None)) s)
            rs it r mounted
      | _ \<Rightarrow> (s, rs))"

definition handleLaunchCamera ::
  "app \<Rightarrow> recommendations_screen \<Rightarrow> string \<Rightarrow> camera \<Rightarrow> outfit_data reply attempt \<Rightarrow> bool
     \<Rightarrow> app \<times> recommendations_screen" where
  "handleLaunchCamera s rs permission cam r mounted =
     (if permission \<noteq> ''granted'' then (alert ''Camera permission required'' None s, rs)
      else case cam of
        Canceled \<Rightarrow> (s, rs\<lparr>cameraModalVisible := False\<rparr>)
      | Captured uri \<Rightarrow>
          (let rs1 = rs\<lparr>cameraModalVisible := False, loading := True\<rparr>;
               s1 = fetch \<lparr>http_method = ''POST'', url = BACKEND_URL @ ''/outfit/from-image'',
                           headers = [(''Authorization'', bearer (token s))],
                           body = FormData
                             ([(''file'', FilePart uri ''image/jpeg'' ''base.jpg''),
                               (''prompt'', Text (prompt rs))]
                              @ coord_text_fields (coords rs))\<rparr> s
           in after_fetch ''Failed'' s1 rs1 r mounted))"

section \<open>Reading the traces\<close>

text \<open>The requests a handler added to the trace, a field of a request's body, and the
  screen a navigation call leads to.\<close>

definition new_requests :: "app \<Rightarrow> app \<Rightarrow> request list" where
  "new_requests s s' = drop (length (requests s)) (requests s')"

definition body_field :: "request \<Rightarrow> string \<Rightarrow> field option" where
  "body_field q k =
     (case body q of
        FormData fs \<Rightarrow> map_of fs k
      | JsonBody fs \<Rightarrow> map_of fs k
      | _ \<Rightarrow> None)"

fun target :: "nav \<Rightarrow> string option" where
  "target (Navigate screen p) = Some screen"
| "target GoBack = None"
| "target PopToTop = None"
| "target (SetParams p) = None"

text \<open>Sample values: a signed-in and a signed-out application, and three items.\<close>

definition signed_in :: app where
  "signed_in = \<lparr>token = Some ''abc'', storage = [''token'' \<mapsto> ''abc''], alerts = [],
     requests = [], navigation = []\<rparr>"

definition signed_out :: app where
  "signed_out = \<lparr>token = None, storage = Map.empty, alerts = [], requests = [],
     navigation = []\<rparr>"


definition blue_shirt :: item where
  "blue_shirt = \<lparr>image_url = ''img/1.jpg'', name = None, category = Some ''shirt'',
     color = Some ''blue'', material = None, texture = None, formality = None,
     reason = None\<rparr>"



section \<open>Properties of trim\<close>

lemma trim_Nil: "trim [] = []"
  by (simp add: trim_def)

lemma last_dropWhile: "dropWhile P xs \<noteq> [] \<Longrightarrow> last (dropWhile P xs) = last xs"
  by (induction xs) (auto split: if_splits)

text \<open>A non-empty string with no white space at either end is left as it is.\<close>

lemma trim_fixed:
  assumes "s \<noteq> []" and "\<not> is_space (hd s)" and "\<not> is_space (last s)"
  shows "trim s = s"
proof -
  from assms have front: "dropWhile is_space s = s"
    by (cases s) simp_all
  from assms have "rev s \<noteq> []" and "\<not> is_space (hd (rev s))"
    by (simp_all add: hd_rev)
  then have "dropWhile is_space (rev s) = rev s"
    by (cases "rev s") simp_all
  with front show ?thesis
    by (simp add: trim_def)
qed

text \<open>A non-empty result of trim has no white space at either end.\<close>

lemma trim_ends:
  assumes "trim s \<noteq> []"
  shows "\<not> is_space (hd (trim s))" and "\<not> is_space (last (trim s))"
proof -
  let ?u = "dropWhile is_space s"
  let ?v = "dropWhile is_space (rev ?u)"
  from assms have v: "?v \<noteq> []"
    by (simp add: trim_def)
  have u: "?u \<noteq> []"
  proof
    assume a: "?u = []"
    have "?v = []" unfolding a by simp
    with v show False by contradiction
  qed
  have "last (trim s) = hd ?v"
    using v by (simp add: trim_def last_rev)
  moreover have "\<not> is_space (hd ?v)"
    using v by (rule hd_dropWhile)
  ultimately show "\<not> is_space (last (trim s))"
    by simp
  have "hd (trim s) = last ?v"
    using v by (simp add: trim_def hd_rev)
  also have "\<dots> = last (rev ?u)"
    using v by (rule last_dropWhile)
  also have "\<dots> = hd ?u"
    using u by (simp add: last_rev)
  finally have "hd (trim s) = hd ?u" .
  moreover have "\<not> is_space (hd ?u)"
    using u by (rule hd_dropWhile)
  ultimately show "\<not> is_space (hd (trim s))"
    by simp
qed

lemma trim_trim: "trim (trim s) = trim s"
proof (cases "trim s = []")
  case True
  then show ?thesis by (simp add: trim_Nil)
next
  case False
  then show ?thesis
    by (intro trim_fixed trim_ends)
qed

section \<open>The display label\<close>




section \<open>The stylist notes\<close>

text \<open>
  C6. The rationale \<^verbatim>\<open>Great for warm weather. Breathable fabric; casual fit.\<close> gives
  exactly three notes, and trimming any of them changes nothing.
\<close>

theorem reasonPoints_example:
  "reasonPoints ''Great for warm weather. Breathable fabric; casual fit.'' =
     [''Great for warm weather'', ''Breathable fabric'', ''casual fit''] \<and>
   length (reasonPoints ''Great for warm weather. Breathable fabric; casual fit.'') = 3 \<and>
   trim ''Great for warm weather'' = ''Great for warm weather'' \<and>
   trim ''Breathable fabric'' = ''Breathable fabric'' \<and>
   trim ''casual fit'' = ''casual fit''"
  by (simp add: reasonPoints_def trim_def is_space_def is_sep_def)

text \<open>
  C9. For every rationale the notes are the first six of its trimmed, non-empty parts, so
  there are at most six of them; a rationale of eight parts loses the last two.
\<close>

theorem reasonPoints_at_most_six:
  "length (reasonPoints overallReason) \<le> 6 \<and>
   reasonPoints overallReason =
     take 6 (filter (\<lambda>p. p \<noteq> []) (map trim (split_sep (trim (replace_ws overallReason))))) \<and>
   reasonPoints ''a. b. c. d. e. f. g. h'' = [''a'', ''b'', ''c'', ''d'', ''e'', ''f'']"
  by (simp add: reasonPoints_def Let_def trim_def is_space_def is_sep_def)

section \<open>The backend address\<close>

text \<open>
  C3, as the code has it. Every operation of the API client sends exactly one request, to
  the one base address \<^verbatim>\<open>http://10.228.248.210:8000\<close> followed by the operation's path, and
  the scheme of every such address is \<^verbatim>\<open>http\<close>.
\<close>

theorem requests_go_over_plain_http:
  "scheme (BACKEND_URL @ path) = ''http'' \<and>
   map url (new_requests s (signIn s u p r1)) = [BACKEND_URL @ ''/token''] \<and>
   map url (new_requests s (signUp s u p r1)) = [BACKEND_URL @ ''/signup''] \<and>
   map url (new_requests s (fst (fetchItems s w r2 focused))) = [BACKEND_URL @ ''/items''] \<and>
   map url (new_requests s (fst (handlePhotoUpload s a ''granted'' (Captured uri) r3))) =
     [BACKEND_URL @ ''/add-item''] \<and>
   map url (new_requests s (fst (handleDelete s deleting it Delete r3))) =
     [BACKEND_URL @ ''/delete-item''] \<and>
   map url (new_requests s (fst (generateFromPrompt s rs r4 mounted))) =
     [BACKEND_URL @ ''/outfit/from-prompt''] \<and>
   map url (new_requests s (fst (handleWardrobeSelection s rs it r4 mounted))) =
     [BACKEND_URL @ ''/outfit/from-prompt''] \<and>
   map url (new_requests s (fst (handleLaunchCamera s rs ''granted'' (Captured uri) r4 mounted))) =
     [BACKEND_URL @ ''/outfit/from-image'']"
  apply (intro conjI)
  apply (simp add: scheme_def BACKEND_URL_def)
  apply (simp add: signIn_def new_requests_def fetch_def alert_def auth_request_def Let_def split: attempt.splits option.splits)
  apply (simp add: signUp_def new_requests_def fetch_def alert_def auth_request_def Let_def split: attempt.splits option.splits)
  apply (simp add: fetchItems_def new_requests_def fetch_def alert_def signOut_def Let_def split: attempt.splits option.splits)
  apply (simp add: handlePhotoUpload_def new_requests_def fetch_def alert_def navigate_def Let_def split: attempt.splits option.splits)
  apply (simp add: handleDelete_def new_requests_def fetch_def alert_def navigate_def Let_def split: attempt.splits option.splits)
  apply (simp add: generateFromPrompt_def after_fetch_def new_requests_def fetch_def alert_def navigate_def Let_def split: attempt.splits option.splits)
  apply (simp add: handleWardrobeSelection_def after_fetch_def new_requests_def fetch_def alert_def navigate_def Let_def split: attempt.splits option.splits)
  apply (simp add: handleLaunchCamera_def after_fetch_def new_requests_def fetch_def alert_def navigate_def Let_def split: attempt.splits option.splits)
  done

text \<open>The request of a sign-in is not sent over \<^verbatim>\<open>https\<close>.\<close>

theorem signIn_scheme_counterexample:
  "scheme (url (last (requests (signIn signed_out ''ann'' ''pw''
     (Returns \<lparr>status = 200, json = Returns \<lparr>access_token = Some ''abc''\<rparr>, body_text = []\<rparr>))))) \<noteq> ''https''"
  by (simp add: signIn_def signed_out_def fetch_def auth_request_def scheme_def BACKEND_URL_def)

section \<open>The session\<close>

text \<open>
  C4. A reply with status 401 to the request for the items sets the token to null, removes
  the key \<^verbatim>\<open>token\<close> from the storage and leaves the application unauthenticated, after
  the notice that the session expired.
\<close>

theorem fetchItems_401_signs_out:
  "status res = 401 \<Longrightarrow>
   token (fst (fetchItems s w (Returns res) focused)) = None \<and>
   storage (fst (fetchItems s w (Returns res) focused)) = (storage s)(''token'' := None) \<and>
   nav_state_of (fst (fetchItems s w (Returns res) focused)) = Unauthenticated \<and>
   alerts (fst (fetchItems s w (Returns res) focused)) = alerts s @ [(''Session expired'', None)]"
  by (simp add: fetchItems_def signOut_def alert_def fetch_def nav_state_of_def truthy_def Let_def)

text \<open>A signed-in application that is answered 401.\<close>

theorem fetchItems_401_signs_out_witness:
  "token (fst (fetchItems signed_in \<lparr>items = [], wardrobe_loading = False\<rparr>
      (Returns \<lparr>status = 401, json = Throws (JsError ''SyntaxError'' ''Unexpected token''), body_text = ''Unauthorized''\<rparr>) True)) = None \<and>
   storage (fst (fetchItems signed_in \<lparr>items = [], wardrobe_loading = False\<rparr>
      (Returns \<lparr>status = 401, json = Throws (JsError ''SyntaxError'' ''Unexpected token''), body_text = ''Unauthorized''\<rparr>) True)) ''token'' = None \<and>
   nav_state_of signed_in = Authenticated \<and>
   nav_state_of (fst (fetchItems signed_in \<lparr>items = [], wardrobe_loading = False\<rparr>
      (Returns \<lparr>status = 401, json = Throws (JsError ''SyntaxError'' ''Unexpected token''), body_text = ''Unauthorized''\<rparr>) True)) = Unauthenticated"
  using fetchItems_401_signs_out [of "\<lparr>status = 401, json = Throws (JsError ''SyntaxError'' ''Unexpected token''), body_text = ''Unauthorized''\<rparr>" signed_in "\<lparr>items = [], wardrobe_loading = False\<rparr>" True]
  by (simp add: signed_in_def nav_state_of_def truthy_def)

text \<open>
  C5. When the body of the reply to a sign-in or a sign-up has no access token (the field is
  missing, null or empty), the token, the storage and the navigation state stay as they
  were, so a signed-out application stays signed out, and the failure notice is shown.
\<close>

theorem auth_without_access_token:
  "json res = Returns data \<Longrightarrow> \<not> truthy (access_token data) \<Longrightarrow>
   token (signIn s u p (Returns res)) = token s \<and>
   storage (signIn s u p (Returns res)) = storage s \<and>
   nav_state_of (signIn s u p (Returns res)) = nav_state_of s \<and>
   alerts (signIn s u p (Returns res)) =
     alerts s @ [(''Login failed'', Some ''Login failed'')] \<and>
   token (signUp s u p (Returns res)) = token s \<and>
   storage (signUp s u p (Returns res)) = storage s \<and>
   nav_state_of (signUp s u p (Returns res)) = nav_state_of s \<and>
   alerts (signUp s u p (Returns res)) =
     alerts s @ [(''Signup failed'', Some ''Signup failed'')]"
  by (auto simp: signIn_def signUp_def fetch_def alert_def nav_state_of_def truthy_def new_Error_def Let_def split: option.splits)

text \<open>A signed-out application whose sign-in and sign-up are answered without a token.\<close>

theorem auth_without_access_token_witness:
  "token (signIn signed_out ''ann'' ''pw''
      (Returns \<lparr>status = 401, json = Returns \<lparr>access_token = None\<rparr>, body_text = []\<rparr>)) = None \<and>
   storage (signIn signed_out ''ann'' ''pw''
      (Returns \<lparr>status = 401, json = Returns \<lparr>access_token = None\<rparr>, body_text = []\<rparr>)) ''token'' = None \<and>
   nav_state_of (signIn signed_out ''ann'' ''pw''
      (Returns \<lparr>status = 401, json = Returns \<lparr>access_token = None\<rparr>, body_text = []\<rparr>)) = Unauthenticated \<and>
   alerts (signUp signed_out ''ann'' ''pw''
      (Returns \<lparr>status = 401, json = Returns \<lparr>access_token = None\<rparr>, body_text = []\<rparr>)) =
     [(''Signup failed'', Some ''Signup failed'')]"
  using auth_without_access_token [of "\<lparr>status = 401, json = Returns \<lparr>access_token = None\<rparr>, body_text = []\<rparr>"
      "\<lparr>access_token = None\<rparr>" signed_out "''ann''" "''pw''"]
  by (simp add: signed_out_def truthy_def nav_state_of_def)

text \<open>
  C2, evaluated where the code departs from it. A signed-in application whose request to
  delete an item, to add an item or to recommend an outfit (from a prompt or from a photo)
  is answered 401 keeps its token, its stored token and the authenticated state; it only
  shows the failure notice of that request.
\<close>

theorem unauthorized_replies_keep_session:
  "token (fst (handleDelete signed_in False blue_shirt Delete
      (Returns \<lparr>status = 401, json = Returns (), body_text = []\<rparr>))) = Some ''abc'' \<and>
   storage (fst (handleDelete signed_in False blue_shirt Delete
      (Returns \<lparr>status = 401, json = Returns (), body_text = []\<rparr>))) ''token'' = Some ''abc'' \<and>
   nav_state_of (fst (handleDelete signed_in False blue_shirt Delete
      (Returns \<lparr>status = 401, json = Returns (), body_text = []\<rparr>))) = Authenticated \<and>
   alerts (fst (handleDelete signed_in False blue_shirt Delete
      (Returns \<lparr>status = 401, json = Returns (), body_text = []\<rparr>))) =
     [(''Delete item'', Some ''Are you sure you want to delete this item?''),
      (''Delete failed'', Some ''Error: Delete failed'')] \<and>
   nav_state_of (fst (handlePhotoUpload signed_in
      \<lparr>name_input = ''Coat'', uploading = False, imageUri = []\<rparr> ''granted''
      (Captured ''file:///photo.jpg'')
      (Returns \<lparr>status = 401, json = Returns (), body_text = ''Unauthorized''\<rparr>))) = Authenticated \<and>
   nav_state_of (fst (generateFromPrompt signed_in
      \<lparr>prompt = ''brunch'', loading = False, coords = None, cameraModalVisible = False\<rparr>
      (Returns \<lparr>status = 401,
         json = Returns \<lparr>error = None, selected_items = None, overall_reason = None,
           weather_summary = None, weather_warning = None\<rparr>, body_text = []\<rparr>) True))
     = Authenticated \<and>
   nav_state_of (fst (handleLaunchCamera signed_in
      \<lparr>prompt = ''brunch'', loading = False, coords = None, cameraModalVisible = True\<rparr>
      ''granted'' (Captured ''file:///photo.jpg'')
      (Returns \<lparr>status = 401,
         json = Returns \<lparr>error = None, selected_items = None, overall_reason = None,
           weather_summary = None, weather_warning = None\<rparr>, body_text = []\<rparr>) True))
     = Authenticated"
  by (simp add: handleDelete_def handlePhotoUpload_def generateFromPrompt_def
      handleLaunchCamera_def after_fetch_def signed_in_def blue_shirt_def fetch_def alert_def
      navigate_def nav_state_of_def truthy_def ok_def new_Error_def error_string_def
      or_else_def str_or_def Let_def)

section \<open>The login form\<close>

text \<open>
  C7. When the user name or the password trims to the empty string, pressing Login or
  Sign Up only adds the prompt to the alerts: no request is sent, and the token, the storage
  and the form are unchanged.
\<close>

theorem blank_credentials_send_nothing:
  "trim (username l) = [] \<or> trim (password l) = [] \<Longrightarrow>
   loginPress s l r = (s\<lparr>alerts := alerts s @ [(''Enter username and password'', None)]\<rparr>, l) \<and>
   signUpPress s l r = (s\<lparr>alerts := alerts s @ [(''Enter username and password'', None)]\<rparr>, l)"
  by (auto simp: loginPress_def signUpPress_def validate_def alert_def)

text \<open>A form whose user name is two spaces.\<close>

theorem blank_credentials_send_nothing_witness:
  "trim ''  '' = [] \<and>
   requests (fst (loginPress signed_out \<lparr>username = ''  '', password = ''pw'', login_loading = False\<rparr>
      (Returns \<lparr>status = 200, json = Returns \<lparr>access_token = Some ''abc''\<rparr>, body_text = []\<rparr>))) = [] \<and>
   token (fst (signUpPress signed_out \<lparr>username = ''  '', password = ''pw'', login_loading = False\<rparr>
      (Returns \<lparr>status = 200, json = Returns \<lparr>access_token = Some ''abc''\<rparr>, body_text = []\<rparr>))) = None \<and>
   alerts (fst (loginPress signed_out \<lparr>username = ''  '', password = ''pw'', login_loading = False\<rparr>
      (Returns \<lparr>status = 200, json = Returns \<lparr>access_token = Some ''abc''\<rparr>, body_text = []\<rparr>))) =
     [(''Enter username and password'', None)]"
  using blank_credentials_send_nothing [of "\<lparr>username = ''  '', password = ''pw'', login_loading = False\<rparr>" signed_out
      "Returns \<lparr>status = 200, json = Returns \<lparr>access_token = Some ''abc''\<rparr>, body_text = []\<rparr>"]
  by (simp add: signed_out_def trim_def is_space_def)

section \<open>Browsing the wardrobe in selection mode\<close>

text \<open>
  C8. In selection mode a tap on an item navigates to the recommendation screen with that
  item as parameter; the add button is not offered; whatever control of the screen is
  pressed, no request is sent and the navigation goes neither to the item's detail screen
  nor to the add-item screen; and the recommendation screen, on receiving the item, sends
  its image address as the base image.
\<close>

theorem selection_mode_browsing:
  "isSelectionMode route \<Longrightarrow>
   handleItemPress route s it =
     s\<lparr>navigation := navigation s
        @ [Navigate ''Recommendations'' (Some (SelectedWardrobeItem (Some it)))]\<rparr> \<and>
   AddItemButton \<notin> set (wardrobe_controls route w) \<and>
   (\<forall>c \<in> set (wardrobe_controls route w).
      requests (wardrobe_press route s c) = requests s \<and>
      (\<exists>n. navigation (wardrobe_press route s c) = navigation s @ [n] \<and>
           target n \<noteq> Some ''ItemDetail'' \<and> target n \<noteq> Some ''Add Item'')) \<and>
   map (\<lambda>q. body_field q ''base_image_url'')
     (new_requests s (fst (selection_effect s rs (Some (SelectedWardrobeItem (Some it))) r mounted)))
     = [Some (Text (image_url it))]"
proof (intro conjI ballI)
  assume sel: "isSelectionMode route"
  then show "handleItemPress route s it =
     s\<lparr>navigation := navigation s
        @ [Navigate ''Recommendations'' (Some (SelectedWardrobeItem (Some it)))]\<rparr>"
    by (simp add: handleItemPress_def navigate_def)
  from sel show "AddItemButton \<notin> set (wardrobe_controls route w)"
    by (auto simp: wardrobe_controls_def)
  show "map (\<lambda>q. body_field q ''base_image_url'')
     (new_requests s (fst (selection_effect s rs (Some (SelectedWardrobeItem (Some it))) r mounted)))
     = [Some (Text (image_url it))]"
    by (simp add: selection_effect_def handleWardrobeSelection_def after_fetch_def new_requests_def
        fetch_def alert_def navigate_def body_field_def Let_def split: attempt.splits)
  fix c
  assume c: "c \<in> set (wardrobe_controls route w)"
  with sel have cases: "c = BackButton \<or> (\<exists>x. c = GridItem x)"
    by (auto simp: wardrobe_controls_def split: if_splits)
  with sel show "requests (wardrobe_press route s c) = requests s"
    by (auto simp: handleItemPress_def navigate_def)
  from cases sel show "\<exists>n. navigation (wardrobe_press route s c) = navigation s @ [n] \<and>
       target n \<noteq> Some ''ItemDetail'' \<and> target n \<noteq> Some ''Add Item''"
    by (auto simp: handleItemPress_def navigate_def)
qed

text \<open>The wardrobe holding the blue shirt, opened in selection mode.\<close>

theorem selection_mode_browsing_witness:
  "isSelectionMode (Some (SelectionMode True)) \<and>
   navigation (handleItemPress (Some (SelectionMode True)) signed_in blue_shirt) =
     [Navigate ''Recommendations'' (Some (SelectedWardrobeItem (Some blue_shirt)))] \<and>
   wardrobe_controls (Some (SelectionMode True)) \<lparr>items = [blue_shirt], wardrobe_loading = False\<rparr> =
     [BackButton, GridItem blue_shirt] \<and>
   requests (wardrobe_press (Some (SelectionMode True)) signed_in (GridItem blue_shirt)) = []"
  using selection_mode_browsing [of "Some (SelectionMode True)" signed_in blue_shirt
      "\<lparr>items = [blue_shirt], wardrobe_loading = False\<rparr>"]
  by (simp add: isSelectionMode_def wardrobe_controls_def signed_in_def)

section \<open>The name of an uploaded item\<close>

text \<open>
  C10. Every request that an upload sends carries a name that is neither empty nor white
  space only, and that name is \<^verbatim>\<open>Unnamed\<close> when the entered name trims to the empty string.
\<close>

theorem upload_name_never_blank:
  "q \<in> set (new_requests s (fst (handlePhotoUpload s a permission cam r))) \<Longrightarrow>
   \<exists>n. body_field q ''name'' = Some (Text n) \<and> n \<noteq> [] \<and> trim n \<noteq> [] \<and>
       (trim (name_input a) = [] \<longrightarrow> n = ''Unnamed'')"
proof -
  assume q: "q \<in> set (new_requests s (fst (handlePhotoUpload s a permission cam r)))"
  let ?n = "str_or (trim (name_input a)) ''Unnamed''"
  have "trim ''Unnamed'' = ''Unnamed''"
    by (simp add: trim_def is_space_def)
  then have blank: "trim ?n \<noteq> []"
    by (simp add: str_or_def trim_trim)
  then have "?n \<noteq> []"
    by (auto simp: trim_Nil)
  moreover have "trim (name_input a) = [] \<longrightarrow> ?n = ''Unnamed''"
    by (simp add: str_or_def)
  moreover from q have "body_field q ''name'' = Some (Text ?n)"
    by (auto simp: handlePhotoUpload_def new_requests_def fetch_def alert_def navigate_def
        body_field_def Let_def split: if_splits camera.splits attempt.splits)
  ultimately show ?thesis
    using blank by blast
qed

text \<open>An upload whose entered name is three spaces.\<close>

theorem upload_name_never_blank_witness:
  "last (requests (fst (handlePhotoUpload signed_in
       \<lparr>name_input = ''   '', uploading = False, imageUri = []\<rparr> ''granted''
       (Captured ''file:///photo.jpg'')
       (Returns \<lparr>status = 200, json = Returns (), body_text = []\<rparr>))))
     \<in> set (new_requests signed_in (fst (handlePhotoUpload signed_in
       \<lparr>name_input = ''   '', uploading = False, imageUri = []\<rparr> ''granted''
       (Captured ''file:///photo.jpg'')
       (Returns \<lparr>status = 200, json = Returns (), body_text = []\<rparr>)))) \<and>
   body_field (last (requests (fst (handlePhotoUpload signed_in
       \<lparr>name_input = ''   '', uploading = False, imageUri = []\<rparr> ''granted''
       (Captured ''file:///photo.jpg'')
       (Returns \<lparr>status = 200, json = Returns (), body_text = []\<rparr>))))) ''name''
     = Some (Text ''Unnamed'')"
proof -
  let ?s' = "fst (handlePhotoUpload signed_in
       \<lparr>name_input = ''   '', uploading = False, imageUri = []\<rparr> ''granted''
       (Captured ''file:///photo.jpg'')
       (Returns \<lparr>status = 200, json = Returns (), body_text = []\<rparr>))"
  have h: "last (requests ?s') \<in> set (new_requests signed_in ?s')"
    by (simp add: handlePhotoUpload_def new_requests_def fetch_def alert_def navigate_def
        signed_in_def ok_def Let_def)
  have blank: "trim (name_input \<lparr>name_input = ''   '', uploading = False, imageUri = []\<rparr>) = []"
    by (simp add: trim_def is_space_def)
  from upload_name_never_blank [OF h] blank
  have "body_field (last (requests ?s')) ''name'' = Some (Text ''Unnamed'')"
    by auto
  with h show ?thesis
    by simp
qed

end
